theory Spec2Isabelle
  imports Main
begin

section \<open>The stored rule row\<close>

text \<open>
  Modelled from the spec: the class \<open>CasbinRule\<close> (imported from \<open>./casbinRule\<close>) is
  not part of the sources at hand. The spec's data model and storage schema give one
  table whose rows have a surrogate identifier assigned by storage, a \<open>ptype\<close> and six
  optional string fields \<open>v0\<close> .. \<open>v5\<close>.

  One record serves for the transient object built by \<open>new Rule()\<close> and for the stored
  row. \<open>None\<close> is a field that was never assigned on the object (its key is absent from
  \<open>dataValues\<close>) and a null column of a stored row; both are falsy in JavaScript.
  The identifier field is called \<open>id_col\<close> since \<open>id\<close> is HOL's identity function.
\<close>

record casbin_rule =
  id_col :: "nat option"
  ptype :: "string option"
  v0 :: "string option"
  v1 :: "string option"
  v2 :: "string option"
  v3 :: "string option"
  v4 :: "string option"
  v5 :: "string option"

text \<open>\<open>new Rule()\<close>: an object on which nothing has been assigned yet.\<close>

definition new_Rule :: casbin_rule where
  "new_Rule = \<lparr>id_col = None, ptype = None, v0 = None, v1 = None, v2 = None,
     v3 = None, v4 = None, v5 = None\<rparr>"

text \<open>
  \<open>Object.keys(line.dataValues)\<close>: the identifier key, which the mapping layer puts on
  every new object, followed by the keys of the fields that have been assigned.
\<close>

definition dataValues_keys :: "casbin_rule \<Rightarrow> string list" where
  "dataValues_keys line =
     ''id'' # map fst (filter (\<lambda>(key, v). v \<noteq> None)
       [(''ptype'', ptype line), (''v0'', v0 line), (''v1'', v1 line), (''v2'', v2 line),
        (''v3'', v3 line), (''v4'', v4 line), (''v5'', v5 line)])"

text \<open>\<open>line[key]\<close> for a string-valued column; any other key reads as undefined.\<close>

definition column :: "casbin_rule \<Rightarrow> string \<Rightarrow> string option" where
  "column line key =
     (if key = ''ptype'' then ptype line
      else if key = ''v0'' then v0 line
      else if key = ''v1'' then v1 line
      else if key = ''v2'' then v2 line
      else if key = ''v3'' then v3 line
      else if key = ''v4'' then v4 line
      else if key = ''v5'' then v5 line
      else None)"

text \<open>The array \<open>[line.v0, line.v1, line.v2, line.v3, line.v4, line.v5]\<close>.\<close>

definition v_fields :: "casbin_rule \<Rightarrow> string option list" where
  "v_fields line = [v0 line, v1 line, v2 line, v3 line, v4 line, v5 line]"

section \<open>The table and the mapping layer's operations\<close>

text \<open>
  Modelled from the spec: the object-relational mapping layer and the database are
  external collaborators. The table is the list of its rows in storage order together
  with the next identifier storage hands out; every operation here succeeds (query
  failures of a real database are outside this model). Identifiers are only required to
  be assigned by storage; no property below depends on their values.
\<close>

record table =
  rows :: "casbin_rule list"
  next_id :: nat

type_synonym where_clause = "(string \<times> string option) list"

text \<open>A row satisfies a \<open>where\<close> object when every listed column equals the listed value.\<close>

definition row_matches :: "where_clause \<Rightarrow> casbin_rule \<Rightarrow> bool" where
  "row_matches wh r = list_all (\<lambda>(key, v). column r key = v) wh"

text \<open>\<open>sync()\<close>: create the table if it is absent; an existing table is left as it is.\<close>

definition sync :: "table \<Rightarrow> table" where
  "sync db = db"

text \<open>\<open>destroy({where: {}, truncate: true})\<close>: every row goes.\<close>

definition destroy_truncate :: "table \<Rightarrow> table" where
  "destroy_truncate db = db\<lparr>rows := []\<rparr>"

text \<open>\<open>destroy({where})\<close>: every row satisfying the \<open>where\<close> object goes.\<close>

definition destroy :: "where_clause \<Rightarrow> table \<Rightarrow> table" where
  "destroy wh db = db\<lparr>rows := filter (\<lambda>r. \<not> row_matches wh r) (rows db)\<rparr>"

text \<open>\<open>line.save()\<close> on a new object: one row is appended, with a fresh identifier.\<close>

definition save :: "casbin_rule \<Rightarrow> table \<Rightarrow> table" where
  "save line db =
     db\<lparr>rows := rows db @ [line\<lparr>id_col := Some (next_id db)\<rparr>],
        next_id := Suc (next_id db)\<rparr>"

text \<open>\<open>findAll()\<close>: all rows, in storage order.\<close>

definition findAll :: "table \<Rightarrow> casbin_rule list" where
  "findAll db = rows db"

section \<open>The policy model of the engine\<close>

text \<open>
  Modelled from the spec: the engine's \<open>Model\<close> is external. Its field \<open>model\<close> maps a
  section name to a mapping from a rule-type marker to an assertion, whose \<open>policy\<close> is
  an ordered list of string tuples. A JavaScript \<open>Map\<close> iterates in insertion order, so
  each mapping is an association list; \<open>get\<close> is \<open>map_of\<close>.
\<close>

record assertion =
  policy :: "string list list"

type_synonym ast_map = "(string \<times> assertion) list"

record Model =
  model :: "(string \<times> ast_map) list"

section \<open>JavaScript strings and arrays\<close>

text \<open>A value is truthy unless it is null, undefined or the empty string.\<close>

definition truthy :: "string option \<Rightarrow> bool" where
  "truthy n = (case n of None \<Rightarrow> False | Some s \<Rightarrow> s \<noteq> [])"

text \<open>String concatenation turns a null operand into the text \<open>null\<close>.\<close>

definition to_string :: "string option \<Rightarrow> string" where
  "to_string n = (case n of None \<Rightarrow> ''null'' | Some s \<Rightarrow> s)"

text \<open>\<open>Array.prototype.join\<close>: a null element contributes the empty string.\<close>

fun join :: "string \<Rightarrow> string option list \<Rightarrow> string" where
  "join sep [] = []"
| "join sep [n] = (case n of None \<Rightarrow> [] | Some s \<Rightarrow> s)"
| "join sep (n # m # ns) = (case n of None \<Rightarrow> [] | Some s \<Rightarrow> s) @ sep @ join sep (m # ns)"

section \<open>The adapter\<close>

datatype error = Error string | TypeError

definition createTable :: "table \<Rightarrow> table" where
  "createTable db = sync db"

definition dropTable :: "table \<Rightarrow> table" where
  "dropTable db = destroy_truncate db"

text \<open>The text that \<open>loadPolicyLine\<close> builds in \<open>result\<close>.\<close>

definition loadPolicyLine_result :: "casbin_rule \<Rightarrow> string" where
  "loadPolicyLine_result line =
     to_string (ptype line) @ '', '' @ join '', '' (filter truthy (v_fields line))"

text \<open>
  \<open>loadPolicyLine\<close> hands the text to the engine's \<open>Helper.loadPolicyLine\<close>, which is
  external and taken as the parameter \<open>helper\<close>; it updates the model.
\<close>

definition loadPolicyLine :: "(string \<Rightarrow> 'm \<Rightarrow> 'm) \<Rightarrow> casbin_rule \<Rightarrow> 'm \<Rightarrow> 'm" where
  "loadPolicyLine helper line m = helper (loadPolicyLine_result line) m"

definition loadPolicy :: "(string \<Rightarrow> 'm \<Rightarrow> 'm) \<Rightarrow> table \<Rightarrow> 'm \<Rightarrow> 'm" where
  "loadPolicy helper db m =
     foldl (\<lambda>m' line. loadPolicyLine helper line m') m (findAll db)"

definition savePolicyLine :: "string \<Rightarrow> string list \<Rightarrow> casbin_rule" where
  "savePolicyLine pt rule =
     (let line = new_Rule;
          line = line\<lparr>ptype := Some pt\<rparr>;
          line = (if length rule > 0 then line\<lparr>v0 := Some (rule ! 0)\<rparr> else line);
          line = (if length rule > 1 then line\<lparr>v1 := Some (rule ! 1)\<rparr> else line);
          line = (if length rule > 2 then line\<lparr>v2 := Some (rule ! 2)\<rparr> else line);
          line = (if length rule > 3 then line\<lparr>v3 := Some (rule ! 3)\<rparr> else line);
          line = (if length rule > 4 then line\<lparr>v4 := Some (rule ! 4)\<rparr> else line);
          line = (if length rule > 5 then line\<lparr>v5 := Some (rule ! 5)\<rparr> else line)
      in line)"

text \<open>
  The loop that \<open>savePolicy\<close> runs over one section:
  \<open>for (const [ptype, ast] of astMap) for (const rule of ast.policy)\<close>, saving one line
  per rule.
\<close>

definition save_rules :: "string \<Rightarrow> string list list \<Rightarrow> table \<Rightarrow> table" where
  "save_rules pt rules db = foldl (\<lambda>d rule. save (savePolicyLine pt rule) d) db rules"

definition save_astMap :: "ast_map \<Rightarrow> table \<Rightarrow> table" where
  "save_astMap astMap db = foldl (\<lambda>d (pt, ast). save_rules pt (policy ast) d) db astMap"

text \<open>
  \<open>savePolicy\<close>. Iterating over the result of \<open>get\<close> for a section the model does not
  have raises a TypeError; what was written before stays written.
\<close>

definition savePolicy :: "Model \<Rightarrow> table \<Rightarrow> table \<times> (error + bool)" where
  "savePolicy m db =
     (let db = dropTable db;
          db = createTable db
      in case map_of (model m) ''p'' of
           None \<Rightarrow> (db, Inl TypeError)
         | Some astMap \<Rightarrow>
             (let db = save_astMap astMap db
              in case map_of (model m) ''g'' of
                   None \<Rightarrow> (db, Inl TypeError)
                 | Some astMap' \<Rightarrow> (save_astMap astMap' db, Inr True)))"

definition addPolicy :: "string \<Rightarrow> string \<Rightarrow> string list \<Rightarrow> table \<Rightarrow> table \<times> (error + unit)" where
  "addPolicy sec pt rule db = (save (savePolicyLine pt rule) db, Inr ())"

text \<open>The \<open>where\<close> object that \<open>removePolicy\<close> fills from the line's keys.\<close>

definition removePolicy_where :: "casbin_rule \<Rightarrow> where_clause" where
  "removePolicy_where line =
     map (\<lambda>key. (key, column line key)) (filter (\<lambda>key. key \<noteq> ''id'') (dataValues_keys line))"

definition removePolicy :: "string \<Rightarrow> string \<Rightarrow> string list \<Rightarrow> table \<Rightarrow> table \<times> (error + unit)" where
  "removePolicy sec pt rule db =
     (let line = savePolicyLine pt rule;
          wh = removePolicy_where line
      in (destroy wh db, Inr ()))"

definition removeFilteredPolicy ::
  "string \<Rightarrow> string \<Rightarrow> int \<Rightarrow> string list \<Rightarrow> table \<Rightarrow> table \<times> (error + unit)" where
  "removeFilteredPolicy sec pt fieldIndex fieldValues db = (db, Inl (Error ''not implemented''))"

section \<open>Auxiliary notions for stating the properties\<close>

text \<open>The table right after the adapter has been opened on a fresh database.\<close>

definition empty_table :: table where
  "empty_table = \<lparr>rows = [], next_id = 1\<rparr>"

text \<open>
  The (ptype, tuple) pairs of one section, in the order in which \<open>savePolicy\<close> visits
  them, and the pairs of a model: its \<open>p\<close> section, then its \<open>g\<close> section.
\<close>

definition section_pairs :: "ast_map \<Rightarrow> (string \<times> string list) list" where
  "section_pairs astMap = concat (map (\<lambda>(pt, ast). map (Pair pt) (policy ast)) astMap)"

definition model_pairs :: "Model \<Rightarrow> (string \<times> string list) list" where
  "model_pairs m =
     (case map_of (model m) ''p'' of None \<Rightarrow> [] | Some astMap \<Rightarrow> section_pairs astMap) @
     (case map_of (model m) ''g'' of None \<Rightarrow> [] | Some astMap \<Rightarrow> section_pairs astMap)"

text \<open>Saving one line per pair of a list, in order.\<close>

definition save_pairs :: "(string \<times> string list) list \<Rightarrow> table \<Rightarrow> table" where
  "save_pairs ps db = foldl (\<lambda>d (pt, rule). save (savePolicyLine pt rule) d) db ps"

section \<open>Facts about \<open>savePolicyLine\<close>\<close>

lemma savePolicyLine_ptype: "ptype (savePolicyLine pt rule) = Some pt"
  by (simp add: savePolicyLine_def new_Rule_def Let_def)

lemma savePolicyLine_id: "id_col (savePolicyLine pt rule) = None"
  by (simp add: savePolicyLine_def new_Rule_def Let_def)

lemma savePolicyLine_v0:
  "v0 (savePolicyLine pt rule) = (if 0 < length rule then Some (rule ! 0) else None)"
  by (simp add: savePolicyLine_def new_Rule_def Let_def)

lemma savePolicyLine_v1:
  "v1 (savePolicyLine pt rule) = (if 1 < length rule then Some (rule ! 1) else None)"
  by (simp add: savePolicyLine_def new_Rule_def Let_def)

lemma savePolicyLine_v2:
  "v2 (savePolicyLine pt rule) = (if 2 < length rule then Some (rule ! 2) else None)"
  by (simp add: savePolicyLine_def new_Rule_def Let_def)

lemma savePolicyLine_v3:
  "v3 (savePolicyLine pt rule) = (if 3 < length rule then Some (rule ! 3) else None)"
  by (simp add: savePolicyLine_def new_Rule_def Let_def)

lemma savePolicyLine_v4:
  "v4 (savePolicyLine pt rule) = (if 4 < length rule then Some (rule ! 4) else None)"
  by (simp add: savePolicyLine_def new_Rule_def Let_def)

lemma savePolicyLine_v5:
  "v5 (savePolicyLine pt rule) = (if 5 < length rule then Some (rule ! 5) else None)"
  by (simp add: savePolicyLine_def new_Rule_def Let_def)

lemmas savePolicyLine_fields =
  savePolicyLine_ptype savePolicyLine_id savePolicyLine_v0 savePolicyLine_v1
  savePolicyLine_v2 savePolicyLine_v3 savePolicyLine_v4 savePolicyLine_v5

lemma upt_0_6: "[0..<6] = [0, 1, 2, 3, 4, 5]"
  by (simp add: upt_rec)

lemma v_fields_savePolicyLine:
  "v_fields (savePolicyLine pt rule) =
     map (\<lambda>k. if k < length rule then Some (rule ! k) else None) [0..<6]"
  unfolding upt_0_6 by (simp add: v_fields_def savePolicyLine_fields)

lemma v_fields_nth:
  "k < 6 \<Longrightarrow>
   v_fields (savePolicyLine pt rule) ! k = (if k < length rule then Some (rule ! k) else None)"
  by (simp add: v_fields_savePolicyLine del: upt_Suc)

lemma v_fields_take:
  "v_fields (savePolicyLine pt rule) = map Some (take 6 rule) @ replicate (6 - length rule) None"
proof (rule nth_equalityI)
  show "length (v_fields (savePolicyLine pt rule)) =
      length (map Some (take 6 rule) @ replicate (6 - length rule) None)"
    by (simp add: v_fields_def)
next
  fix i
  assume "i < length (v_fields (savePolicyLine pt rule))"
  then have "i < 6"
    by (simp add: v_fields_def)
  then show "v_fields (savePolicyLine pt rule) ! i =
      (map Some (take 6 rule) @ replicate (6 - length rule) None) ! i"
    by (auto simp: v_fields_nth nth_append)
qed

text \<open>
  Claim C8. Every row built by \<open>savePolicyLine\<close> has its \<open>ptype\<close> assigned, and its
  field \<open>v_k\<close> is set exactly when \<open>k\<close> is below the smaller of the tuple's length and
  six; so there are no gaps: when \<open>v_k\<close> is set, every \<open>v_j\<close> with \<open>j < k\<close> is set.
\<close>

theorem savePolicyLine_no_gaps:
  "ptype (savePolicyLine pt rule) = Some pt \<and>
   (\<forall>k<6. (v_fields (savePolicyLine pt rule) ! k \<noteq> None) = (k < min (length rule) 6)) \<and>
   (\<forall>k<6. \<forall>j<k. v_fields (savePolicyLine pt rule) ! k \<noteq> None \<longrightarrow>
      v_fields (savePolicyLine pt rule) ! j \<noteq> None)"
  by (simp add: savePolicyLine_ptype v_fields_nth)

theorem savePolicyLine_no_gaps_witness:
  "ptype (savePolicyLine ''p'' [''alice'', ''data1'', ''read'']) = Some ''p'' \<and>
   v_fields (savePolicyLine ''p'' [''alice'', ''data1'', ''read'']) ! 2 \<noteq> None \<and>
   v_fields (savePolicyLine ''p'' [''alice'', ''data1'', ''read'']) ! 1 \<noteq> None \<and>
   (v_fields (savePolicyLine ''p'' [''alice'', ''data1'', ''read'']) ! 3 \<noteq> None) = False"
  using savePolicyLine_no_gaps [of "''p''" "[''alice'', ''data1'', ''read'']"]
  by (simp add: v_fields_def savePolicyLine_fields)

section \<open>Removing rules\<close>

lemma removePolicy_where_saved:
  "removePolicy_where (savePolicyLine pt rule) =
     (''ptype'', Some pt) #
     map (\<lambda>k. ([''v0'', ''v1'', ''v2'', ''v3'', ''v4'', ''v5''] ! k, Some (rule ! k)))
       [0..<min (length rule) 6]"
proof -
  consider "length rule = 0" | "length rule = 1" | "length rule = 2" | "length rule = 3"
    | "length rule = 4" | "length rule = 5" | "6 \<le> length rule"
    by linarith
  then show ?thesis
    by cases (simp_all add: removePolicy_where_def dataValues_keys_def savePolicyLine_fields
        column_def upt_rec min_def eval_nat_numeral, auto)
qed

lemma row_matches_saved:
  "row_matches (removePolicy_where (savePolicyLine pt rule)) r \<longleftrightarrow>
     ptype r = Some pt \<and> (\<forall>k<min (length rule) 6. v_fields r ! k = Some (rule ! k))"
proof -
  consider "length rule = 0" | "length rule = 1" | "length rule = 2" | "length rule = 3"
    | "length rule = 4" | "length rule = 5" | "6 \<le> length rule"
    by linarith
  then show ?thesis
    by cases (simp_all add: row_matches_def removePolicy_where_def dataValues_keys_def
        savePolicyLine_fields column_def v_fields_def min_def All_less_Suc eval_nat_numeral, auto)
qed

lemma rows_save: "rows (save line db) = rows db @ [line\<lparr>id_col := Some (next_id db)\<rparr>]"
  by (simp add: save_def)

lemma next_id_save: "next_id (save line db) = Suc (next_id db)"
  by (simp add: save_def)

text \<open>
  Claim C3. The \<open>where\<close> object of \<open>removePolicy\<close> lists \<open>ptype\<close> and the fields that the
  positional mapping of the rule populates, and never the identifier; the call deletes
  exactly the rows whose \<open>ptype\<close> and whose every such field equal the rule's. Fields the
  rule leaves absent are not constrained.
\<close>

theorem removePolicy_deletes_matching:
  "removePolicy_where (savePolicyLine pt rule) =
     (''ptype'', Some pt) #
     map (\<lambda>k. ([''v0'', ''v1'', ''v2'', ''v3'', ''v4'', ''v5''] ! k, Some (rule ! k)))
       [0..<min (length rule) 6]
   \<and> removePolicy sec pt rule db =
     (db\<lparr>rows := filter (\<lambda>r. \<not> (ptype r = Some pt \<and>
        (\<forall>k<min (length rule) 6. v_fields r ! k = Some (rule ! k)))) (rows db)\<rparr>, Inr ())"
proof
  show "removePolicy_where (savePolicyLine pt rule) =
     (''ptype'', Some pt) #
     map (\<lambda>k. ([''v0'', ''v1'', ''v2'', ''v3'', ''v4'', ''v5''] ! k, Some (rule ! k)))
       [0..<min (length rule) 6]"
    by (rule removePolicy_where_saved)
next
  show "removePolicy sec pt rule db =
     (db\<lparr>rows := filter (\<lambda>r. \<not> (ptype r = Some pt \<and>
        (\<forall>k<min (length rule) 6. v_fields r ! k = Some (rule ! k)))) (rows db)\<rparr>, Inr ())"
    by (simp add: removePolicy_def destroy_def row_matches_saved)
qed

theorem removePolicy_deletes_matching_witness:
  "fst (removePolicy ''p'' ''p'' [''alice'']
      (save (savePolicyLine ''p'' [''bob'', ''data2'', ''write''])
        (save (savePolicyLine ''p'' [''alice'', ''data1'', ''read'']) empty_table))) =
   \<lparr>rows = [(savePolicyLine ''p'' [''bob'', ''data2'', ''write''])\<lparr>id_col := Some 2\<rparr>],
      next_id = 3\<rparr>"
  using removePolicy_deletes_matching [of "''p''" "[''alice'']" "''p''"
      "save (savePolicyLine ''p'' [''bob'', ''data2'', ''write''])
        (save (savePolicyLine ''p'' [''alice'', ''data1'', ''read'']) empty_table)"]
  by (simp add: save_def empty_table_def savePolicyLine_fields v_fields_def)

text \<open>
  Claim C6. When no row of the table matches the pair (no row has the rule's \<open>ptype\<close>
  and the rule's value in every field the rule populates), \<open>removePolicy\<close> returns
  without an error and leaves the table, hence its row count, as it was.
\<close>

theorem removePolicy_no_match:
  "\<not> (\<exists>r \<in> set (rows db). ptype r = Some pt \<and>
        (\<forall>k<min (length rule) 6. v_fields r ! k = Some (rule ! k))) \<Longrightarrow>
   removePolicy sec pt rule db = (db, Inr ()) \<and>
   length (rows (fst (removePolicy sec pt rule db))) = length (rows db)"
proof -
  assume h: "\<not> (\<exists>r \<in> set (rows db). ptype r = Some pt \<and>
        (\<forall>k<min (length rule) 6. v_fields r ! k = Some (rule ! k)))"
  have "filter (\<lambda>r. \<not> row_matches (removePolicy_where (savePolicyLine pt rule)) r) (rows db) =
      rows db"
    using h by (auto simp: row_matches_saved filter_id_conv)
  then show ?thesis
    by (simp add: removePolicy_def destroy_def)
qed

theorem removePolicy_no_match_witness:
  "removePolicy ''p'' ''p'' [''bob'', ''data1'', ''read'']
      (save (savePolicyLine ''p'' [''alice'', ''data1'', ''read'']) empty_table) =
     (save (savePolicyLine ''p'' [''alice'', ''data1'', ''read'']) empty_table, Inr ()) \<and>
   length (rows (fst (removePolicy ''p'' ''p'' [''bob'', ''data1'', ''read'']
      (save (savePolicyLine ''p'' [''alice'', ''data1'', ''read'']) empty_table)))) = 1"
proof -
  have h: "\<not> (\<exists>r \<in> set (rows (save (savePolicyLine ''p'' [''alice'', ''data1'', ''read''])
        empty_table)). ptype r = Some ''p'' \<and>
        (\<forall>k<min (length [''bob'', ''data1'', ''read'']) 6.
           v_fields r ! k = Some ([''bob'', ''data1'', ''read''] ! k)))"
    by (auto simp: save_def empty_table_def savePolicyLine_fields v_fields_def)
  from removePolicy_no_match [OF h, of "''p''"] show ?thesis
    by (simp add: rows_save empty_table_def)
qed

text \<open>
  Claim C9. For the empty rule the \<open>where\<close> object holds \<open>ptype\<close> alone, so the call
  deletes the rows of that \<open>ptype\<close>; in particular every row of that \<open>ptype\<close> whose
  \<open>v0\<close> .. \<open>v5\<close> are all null is deleted.
\<close>

theorem removePolicy_empty_rule:
  "removePolicy_where (savePolicyLine pt []) = [(''ptype'', Some pt)] \<and>
   removePolicy sec pt [] db =
     (db\<lparr>rows := filter (\<lambda>r. ptype r \<noteq> Some pt) (rows db)\<rparr>, Inr ()) \<and>
   (\<forall>r \<in> set (rows db). ptype r = Some pt \<and> (\<forall>k<6. v_fields r ! k = None) \<longrightarrow>
      r \<notin> set (rows (fst (removePolicy sec pt [] db))))"
proof -
  have w: "removePolicy_where (savePolicyLine pt []) = [(''ptype'', Some pt)]"
    by (simp add: removePolicy_where_saved)
  have m: "\<And>r. row_matches (removePolicy_where (savePolicyLine pt [])) r \<longleftrightarrow> ptype r = Some pt"
    by (simp add: row_matches_saved)
  have d: "removePolicy sec pt [] db =
      (db\<lparr>rows := filter (\<lambda>r. ptype r \<noteq> Some pt) (rows db)\<rparr>, Inr ())"
    by (simp add: removePolicy_def destroy_def m)
  show ?thesis
    by (simp add: d) (rule w)
qed

theorem removePolicy_empty_rule_witness:
  "rows (fst (removePolicy ''p'' ''p'' []
      (save (savePolicyLine ''g'' [''alice'', ''admin''])
        (save (savePolicyLine ''p'' [''alice'', ''data1'', ''read''])
          (save (savePolicyLine ''p'' []) empty_table))))) =
   [(savePolicyLine ''g'' [''alice'', ''admin''])\<lparr>id_col := Some 3\<rparr>]"
  using removePolicy_empty_rule [of "''p''" "''p''"
      "save (savePolicyLine ''g'' [''alice'', ''admin''])
        (save (savePolicyLine ''p'' [''alice'', ''data1'', ''read''])
          (save (savePolicyLine ''p'' []) empty_table))"]
  by (simp add: save_def empty_table_def savePolicyLine_fields)

text \<open>
  Claim C5. Whatever its arguments, \<open>removeFilteredPolicy\<close> raises the error
  \<open>not implemented\<close> and leaves the table as it was.
\<close>

theorem removeFilteredPolicy_not_implemented:
  "snd (removeFilteredPolicy sec pt fieldIndex fieldValues db) = Inl (Error ''not implemented'') \<and>
   fst (removeFilteredPolicy sec pt fieldIndex fieldValues db) = db"
  by (simp add: removeFilteredPolicy_def)

lemma v_fields_id: "v_fields (r\<lparr>id_col := x\<rparr>) = v_fields r"
  by (simp add: v_fields_def)

lemma saved_row_matches:
  "row_matches (removePolicy_where (savePolicyLine pt rule))
     ((savePolicyLine pt rule)\<lparr>id_col := x\<rparr>)"
  by (simp add: row_matches_saved v_fields_id v_fields_nth savePolicyLine_ptype)

text \<open>
  Claim C4, as amended. One \<open>removePolicy\<close> call deletes every row matching the pair.
  After the same pair has been inserted twice, the count of matching rows has grown by
  two; after one removal no matching row is left, and the table holds exactly the rows
  it held before that did not match.
\<close>

theorem removePolicy_deletes_all_duplicates:
  "length (filter (row_matches (removePolicy_where (savePolicyLine pt rule)))
      (rows (fst (addPolicy sec pt rule (fst (addPolicy sec pt rule db)))))) =
     length (filter (row_matches (removePolicy_where (savePolicyLine pt rule))) (rows db)) + 2 \<and>
   rows (fst (removePolicy sec pt rule
      (fst (addPolicy sec pt rule (fst (addPolicy sec pt rule db)))))) =
     filter (\<lambda>r. \<not> row_matches (removePolicy_where (savePolicyLine pt rule)) r) (rows db) \<and>
   length (filter (row_matches (removePolicy_where (savePolicyLine pt rule)))
      (rows (fst (removePolicy sec pt rule
         (fst (addPolicy sec pt rule (fst (addPolicy sec pt rule db)))))))) = 0"
  by (simp add: addPolicy_def removePolicy_def destroy_def rows_save saved_row_matches)

text \<open>
  The amended claim on a table that already holds another rule: the two inserted rows go,
  the other rule stays.
\<close>

theorem removePolicy_deletes_all_duplicates_witness:
  "rows (fst (removePolicy ''p'' ''p'' [''alice'', ''data1'', ''read'']
      (fst (addPolicy ''p'' ''p'' [''alice'', ''data1'', ''read'']
        (fst (addPolicy ''p'' ''p'' [''alice'', ''data1'', ''read'']
          (save (savePolicyLine ''p'' [''bob'', ''data2'', ''write'']) empty_table))))))) =
   [(savePolicyLine ''p'' [''bob'', ''data2'', ''write''])\<lparr>id_col := Some 1\<rparr>]"
proof -
  have n: "\<And>x. \<not> row_matches
      (removePolicy_where (savePolicyLine ''p'' [''alice'', ''data1'', ''read'']))
      ((savePolicyLine ''p'' [''bob'', ''data2'', ''write''])\<lparr>id_col := x\<rparr>)"
    by (simp add: row_matches_def removePolicy_where_def dataValues_keys_def column_def
        savePolicyLine_fields)
  from removePolicy_deletes_all_duplicates [of "''p''" "[''alice'', ''data1'', ''read'']" "''p''"
      "save (savePolicyLine ''p'' [''bob'', ''data2'', ''write'']) empty_table"]
  have "rows (fst (removePolicy ''p'' ''p'' [''alice'', ''data1'', ''read'']
      (fst (addPolicy ''p'' ''p'' [''alice'', ''data1'', ''read'']
        (fst (addPolicy ''p'' ''p'' [''alice'', ''data1'', ''read'']
          (save (savePolicyLine ''p'' [''bob'', ''data2'', ''write'']) empty_table))))))) =
    filter (\<lambda>r. \<not> row_matches
        (removePolicy_where (savePolicyLine ''p'' [''alice'', ''data1'', ''read''])) r)
      (rows (save (savePolicyLine ''p'' [''bob'', ''data2'', ''write'']) empty_table))"
    by (rule conjunct1 [OF conjunct2])
  then show ?thesis
    by (simp add: rows_save empty_table_def n)
qed

text \<open>
  Claim C4 as stated fails: on the empty table, inserting one pair twice and removing it
  once leaves no row, not one.
\<close>

theorem removePolicy_one_row_remaining_counterexample:
  "length (rows (fst (addPolicy ''p'' ''p'' [''alice'', ''data1'', ''read'']
      (fst (addPolicy ''p'' ''p'' [''alice'', ''data1'', ''read''] empty_table))))) = 2 \<and>
   rows (fst (removePolicy ''p'' ''p'' [''alice'', ''data1'', ''read'']
      (fst (addPolicy ''p'' ''p'' [''alice'', ''data1'', ''read'']
        (fst (addPolicy ''p'' ''p'' [''alice'', ''data1'', ''read''] empty_table)))))) = [] \<and>
   length (rows (fst (removePolicy ''p'' ''p'' [''alice'', ''data1'', ''read'']
      (fst (addPolicy ''p'' ''p'' [''alice'', ''data1'', ''read'']
        (fst (addPolicy ''p'' ''p'' [''alice'', ''data1'', ''read''] empty_table))))))) \<noteq> 1"
  by (simp add: addPolicy_def removePolicy_def destroy_def rows_save saved_row_matches
      empty_table_def)

section \<open>Saving a model\<close>

lemma save_rules_pairs: "save_rules pt rules db = save_pairs (map (Pair pt) rules) db"
  by (simp add: save_rules_def save_pairs_def foldl_map)

lemma save_pairs_append: "save_pairs (xs @ ys) db = save_pairs ys (save_pairs xs db)"
  by (simp add: save_pairs_def)

lemma save_astMap_pairs: "save_astMap astMap db = save_pairs (section_pairs astMap) db"
proof (induction astMap arbitrary: db)
  case Nil
  show ?case
    by (simp add: save_astMap_def section_pairs_def save_pairs_def)
next
  case (Cons a astMap)
  obtain pt ast where a: "a = (pt, ast)"
    by (cases a)
  have "save_astMap (a # astMap) db = save_astMap astMap (save_rules pt (policy ast) db)"
    by (simp add: save_astMap_def a)
  also have "\<dots> = save_pairs (section_pairs astMap) (save_pairs (map (Pair pt) (policy ast)) db)"
    by (simp add: Cons.IH save_rules_pairs)
  also have "\<dots> = save_pairs (section_pairs (a # astMap)) db"
    by (simp add: section_pairs_def a save_pairs_append)
  finally show ?case .
qed

lemma strip_saved:
  "(savePolicyLine pt rule)\<lparr>id_col := Some n\<rparr>\<lparr>id_col := None\<rparr> = savePolicyLine pt rule"
  by (simp add: savePolicyLine_def new_Rule_def Let_def)

lemma rows_save_pairs:
  "map (\<lambda>r. r\<lparr>id_col := None\<rparr>) (rows (save_pairs ps db)) =
     map (\<lambda>r. r\<lparr>id_col := None\<rparr>) (rows db) @ map (\<lambda>(pt, rule). savePolicyLine pt rule) ps"
proof (induction ps arbitrary: db)
  case Nil
  show ?case
    by (simp add: save_pairs_def)
next
  case (Cons p ps)
  obtain pt rule where p: "p = (pt, rule)"
    by (cases p)
  have "save_pairs (p # ps) db = save_pairs ps (save (savePolicyLine pt rule) db)"
    by (simp add: save_pairs_def p)
  then show ?case
    by (simp add: Cons.IH rows_save strip_saved p)
qed

lemma savePolicy_complete:
  assumes "map_of (model m) ''p'' = Some ps" and "map_of (model m) ''g'' = Some gs"
  shows "savePolicy m db =
    (save_pairs (section_pairs ps @ section_pairs gs) (db\<lparr>rows := []\<rparr>), Inr True)"
  using assms
  by (simp add: savePolicy_def dropTable_def createTable_def destroy_truncate_def sync_def
      save_astMap_pairs save_pairs_append)

text \<open>A model without a \<open>p\<close> or without a \<open>g\<close> section makes \<open>savePolicy\<close> fail half way.\<close>

lemma savePolicy_no_p:
  "map_of (model m) ''p'' = None \<Longrightarrow> savePolicy m db = (db\<lparr>rows := []\<rparr>, Inl TypeError)"
  by (simp add: savePolicy_def dropTable_def createTable_def destroy_truncate_def sync_def)

lemma savePolicy_no_g:
  "map_of (model m) ''p'' = Some ps \<Longrightarrow> map_of (model m) ''g'' = None \<Longrightarrow>
   savePolicy m db = (save_pairs (section_pairs ps) (db\<lparr>rows := []\<rparr>), Inl TypeError)"
  by (simp add: savePolicy_def dropTable_def createTable_def destroy_truncate_def sync_def
      save_astMap_pairs)

text \<open>
  Claim C7. \<open>savePolicy\<close> first empties the table and ensures it, then saves one line per
  rule tuple: the \<open>p\<close> section before the \<open>g\<close> section, each section in the iteration
  order of its mapping and each policy list in its own order; it then returns true. The
  stored rows are, identifiers apart, the lines of \<open>savePolicyLine\<close> in that order.
\<close>

theorem savePolicy_rewrites:
  assumes "map_of (model m) ''p'' = Some ps" and "map_of (model m) ''g'' = Some gs"
  shows "rows (dropTable db) = [] \<and> createTable (dropTable db) = dropTable db \<and>
    savePolicy m db =
      (save_pairs (section_pairs ps @ section_pairs gs) (createTable (dropTable db)), Inr True) \<and>
    map (\<lambda>r. r\<lparr>id_col := None\<rparr>) (rows (fst (savePolicy m db))) =
      map (\<lambda>(pt, rule). savePolicyLine pt rule) (section_pairs ps @ section_pairs gs)"
  using savePolicy_complete [OF assms, of db]
  by (simp add: rows_save_pairs dropTable_def createTable_def destroy_truncate_def sync_def)

text \<open>
  The claim on a model with two rule types in its \<open>p\<close> section and one in its \<open>g\<close>
  section, saved over a table that holds a stale row.
\<close>

theorem savePolicy_rewrites_witness:
  "snd (savePolicy
      \<lparr>model = [(''g'', [(''g'', \<lparr>policy = [[''alice'', ''admin'']]\<rparr>)]),
                (''p'', [(''p'', \<lparr>policy = [[''alice'', ''data1'', ''read''],
                                            [''bob'', ''data2'', ''write'']]\<rparr>),
                         (''p2'', \<lparr>policy = [[''carol'', ''data3'']]\<rparr>)])]\<rparr>
      (save (savePolicyLine ''p'' [''stale'']) empty_table)) = Inr True \<and>
   map (\<lambda>r. r\<lparr>id_col := None\<rparr>) (rows (fst (savePolicy
      \<lparr>model = [(''g'', [(''g'', \<lparr>policy = [[''alice'', ''admin'']]\<rparr>)]),
                (''p'', [(''p'', \<lparr>policy = [[''alice'', ''data1'', ''read''],
                                            [''bob'', ''data2'', ''write'']]\<rparr>),
                         (''p2'', \<lparr>policy = [[''carol'', ''data3'']]\<rparr>)])]\<rparr>
      (save (savePolicyLine ''p'' [''stale'']) empty_table)))) =
   [savePolicyLine ''p'' [''alice'', ''data1'', ''read''],
    savePolicyLine ''p'' [''bob'', ''data2'', ''write''],
    savePolicyLine ''p2'' [''carol'', ''data3''],
    savePolicyLine ''g'' [''alice'', ''admin'']]"
proof -
  let ?m = "\<lparr>model = [(''g'', [(''g'', \<lparr>policy = [[''alice'', ''admin'']]\<rparr>)]),
                (''p'', [(''p'', \<lparr>policy = [[''alice'', ''data1'', ''read''],
                                            [''bob'', ''data2'', ''write'']]\<rparr>),
                         (''p2'', \<lparr>policy = [[''carol'', ''data3'']]\<rparr>)])]\<rparr>"
  have p: "map_of (model ?m) ''p'' =
      Some [(''p'', \<lparr>policy = [[''alice'', ''data1'', ''read''], [''bob'', ''data2'', ''write'']]\<rparr>),
            (''p2'', \<lparr>policy = [[''carol'', ''data3'']]\<rparr>)]"
    by simp
  have g: "map_of (model ?m) ''g'' = Some [(''g'', \<lparr>policy = [[''alice'', ''admin'']]\<rparr>)]"
    by simp
  note t = savePolicy_rewrites [OF p g, of "save (savePolicyLine ''p'' [''stale'']) empty_table"]
  from t have "snd (savePolicy ?m (save (savePolicyLine ''p'' [''stale'']) empty_table)) = Inr True"
    by (simp only: snd_conv)
  moreover from t have "map (\<lambda>r. r\<lparr>id_col := None\<rparr>)
      (rows (fst (savePolicy ?m (save (savePolicyLine ''p'' [''stale'']) empty_table)))) =
    map (\<lambda>(pt, rule). savePolicyLine pt rule)
      (section_pairs [(''p'', \<lparr>policy = [[''alice'', ''data1'', ''read''],
                                            [''bob'', ''data2'', ''write'']]\<rparr>),
                      (''p2'', \<lparr>policy = [[''carol'', ''data3'']]\<rparr>)] @
       section_pairs [(''g'', \<lparr>policy = [[''alice'', ''admin'']]\<rparr>)])"
    by (rule conjunct2 [OF conjunct2 [OF conjunct2]])
  ultimately show ?thesis
    by (simp add: section_pairs_def)
qed

section \<open>Loading lines\<close>

lemma filter_truthy_cong:
  "list_all2 (\<lambda>a b. a = b \<or> (\<not> truthy a \<and> \<not> truthy b)) xs ys \<Longrightarrow>
   filter truthy xs = filter truthy ys"
  by (induction rule: list_all2_induct) auto

lemma filter_truthy_none:
  "(\<forall>n \<in> set xs. n = None \<or> n = Some []) \<Longrightarrow> filter truthy xs = []"
  by (induction xs) (auto simp: truthy_def)

lemma filter_truthy_strings:
  "filter truthy xs =
     map Some (concat (map (\<lambda>n. case n of None \<Rightarrow> [] | Some s \<Rightarrow> if s = [] then [] else [s]) xs))"
  by (induction xs) (auto simp: truthy_def split: option.splits)

text \<open>
  Claim C10. The line is the \<open>ptype\<close>, the separator, and the fields that are non-empty
  strings, in order, joined by the separator: a field that is null or the empty string
  leaves no trace. So two rows with the same \<open>ptype\<close> that differ only in fields that are
  null in one and the empty string in the other give the same line, and when every field
  is null or empty, the line is the \<open>ptype\<close> followed by the separator and nothing else.
\<close>

theorem loadPolicyLine_truthy:
  "loadPolicyLine_result r =
     to_string (ptype r) @ '', '' @
     join '', '' (map Some (concat (map
       (\<lambda>n. case n of None \<Rightarrow> [] | Some s \<Rightarrow> if s = [] then [] else [s]) (v_fields r)))) \<and>
   set (filter truthy (v_fields r)) \<subseteq> {n. \<exists>s. n = Some s \<and> s \<noteq> []} \<and>
   (ptype r = ptype r' \<and>
    (\<forall>k<6. v_fields r ! k = v_fields r' ! k \<or>
       (v_fields r ! k \<in> {None, Some []} \<and> v_fields r' ! k \<in> {None, Some []})) \<longrightarrow>
    loadPolicyLine_result r = loadPolicyLine_result r') \<and>
   ((\<forall>k<6. v_fields r ! k \<in> {None, Some []}) \<longrightarrow>
    loadPolicyLine_result r = to_string (ptype r) @ '', '')"
proof (intro conjI impI)
  show "loadPolicyLine_result r =
     to_string (ptype r) @ '', '' @
     join '', '' (map Some (concat (map
       (\<lambda>n. case n of None \<Rightarrow> [] | Some s \<Rightarrow> if s = [] then [] else [s]) (v_fields r))))"
    unfolding loadPolicyLine_result_def by (simp only: filter_truthy_strings)
next
  show "set (filter truthy (v_fields r)) \<subseteq> {n. \<exists>s. n = Some s \<and> s \<noteq> []}"
    by (auto simp: truthy_def split: option.splits)
next
  assume h: "ptype r = ptype r' \<and>
    (\<forall>k<6. v_fields r ! k = v_fields r' ! k \<or>
       (v_fields r ! k \<in> {None, Some []} \<and> v_fields r' ! k \<in> {None, Some []}))"
  have "list_all2 (\<lambda>a b. a = b \<or> (\<not> truthy a \<and> \<not> truthy b)) (v_fields r) (v_fields r')"
    unfolding list_all2_conv_all_nth
  proof (intro conjI allI impI)
    show "length (v_fields r) = length (v_fields r')"
      by (simp add: v_fields_def)
  next
    fix i
    assume "i < length (v_fields r)"
    then have "i < 6"
      by (simp add: v_fields_def)
    with h show "v_fields r ! i = v_fields r' ! i \<or>
        (\<not> truthy (v_fields r ! i) \<and> \<not> truthy (v_fields r' ! i))"
      by (auto simp: truthy_def)
  qed
  then have "filter truthy (v_fields r) = filter truthy (v_fields r')"
    by (rule filter_truthy_cong)
  with h show "loadPolicyLine_result r = loadPolicyLine_result r'"
    by (simp add: loadPolicyLine_result_def)
next
  assume h: "\<forall>k<6. v_fields r ! k \<in> {None, Some []}"
  have "\<forall>n \<in> set (v_fields r). n = None \<or> n = Some []"
  proof
    fix n
    assume "n \<in> set (v_fields r)"
    then obtain i where "i < length (v_fields r)" "v_fields r ! i = n"
      by (auto simp: in_set_conv_nth)
    moreover from this have "i < 6"
      by (simp add: v_fields_def)
    ultimately show "n = None \<or> n = Some []"
      using h by auto
  qed
  then have "filter truthy (v_fields r) = []"
    by (rule filter_truthy_none)
  then show "loadPolicyLine_result r = to_string (ptype r) @ '', ''"
    by (simp add: loadPolicyLine_result_def)
qed

text \<open>
  The claim on stored rows. The row of \<open>alice\<close>, the empty string and \<open>read\<close> under \<open>p\<close>
  gives the line \<open>p, alice, read\<close>, and so does the row that holds null in place of the
  empty string; the row whose \<open>v0\<close> and \<open>v1\<close> are the empty string gives the line of the
  \<open>ptype\<close> and the separator alone.
\<close>

theorem loadPolicyLine_truthy_witness:
  "loadPolicyLine_result ((savePolicyLine ''p'' [''alice'', '''', ''read''])\<lparr>id_col := Some 1\<rparr>) =
     ''p, alice, read'' \<and>
   loadPolicyLine_result ((savePolicyLine ''p'' [''alice'', '''', ''read''])\<lparr>id_col := Some 1\<rparr>) =
     loadPolicyLine_result
       ((savePolicyLine ''p'' [''alice'', '''', ''read''])\<lparr>id_col := Some 2, v1 := None\<rparr>) \<and>
   loadPolicyLine_result ((savePolicyLine ''p'' ['''', ''''])\<lparr>id_col := Some 3\<rparr>) = ''p, ''"
proof -
  let ?r = "(savePolicyLine ''p'' [''alice'', '''', ''read''])\<lparr>id_col := Some 1\<rparr>"
  let ?r' = "(savePolicyLine ''p'' [''alice'', '''', ''read''])\<lparr>id_col := Some 2, v1 := None\<rparr>"
  let ?e = "(savePolicyLine ''p'' ['''', ''''])\<lparr>id_col := Some 3\<rparr>"
  have v: "v_fields ?r = [Some ''alice'', Some [], Some ''read'', None, None, None]"
      "v_fields ?r' = [Some ''alice'', None, Some ''read'', None, None, None]"
      "v_fields ?e = [Some [], Some [], None, None, None, None]"
    by (simp_all add: v_fields_def savePolicyLine_fields)
  have pt: "ptype ?r = Some ''p''" "ptype ?r' = Some ''p''" "ptype ?e = Some ''p''"
    by (simp_all add: savePolicyLine_fields)
  have h1: "ptype ?r = ptype ?r' \<and>
    (\<forall>k<6. v_fields ?r ! k = v_fields ?r' ! k \<or>
       (v_fields ?r ! k \<in> {None, Some []} \<and> v_fields ?r' ! k \<in> {None, Some []}))"
    unfolding v pt by (simp add: All_less_Suc eval_nat_numeral)
  have h2: "\<forall>k<6. v_fields ?e ! k \<in> {None, Some []}"
    unfolding v by (simp add: All_less_Suc eval_nat_numeral)
  have "loadPolicyLine_result ?r =
     to_string (ptype ?r) @ '', '' @
     join '', '' (map Some (concat (map
       (\<lambda>n. case n of None \<Rightarrow> [] | Some s \<Rightarrow> if s = [] then [] else [s]) (v_fields ?r))))"
    using loadPolicyLine_truthy [of ?r ?r'] by (rule conjunct1)
  then have a: "loadPolicyLine_result ?r = ''p, alice, read''"
    unfolding v pt by (simp add: to_string_def)
  have b: "loadPolicyLine_result ?r = loadPolicyLine_result ?r'"
    using loadPolicyLine_truthy [of ?r ?r'] h1 by blast
  have "loadPolicyLine_result ?e = to_string (ptype ?e) @ '', ''"
    using loadPolicyLine_truthy [of ?e ?e] h2 by blast
  then have c: "loadPolicyLine_result ?e = ''p, ''"
    unfolding pt by (simp add: to_string_def)
  from a b c show ?thesis
    by (intro conjI)
qed

section \<open>Saving, then loading\<close>

lemma filter_truthy_Some: "[] \<notin> set rule \<Longrightarrow> filter truthy (map Some rule) = map Some rule"
  by (induction rule) (auto simp: truthy_def)

lemma filter_truthy_replicate_None: "filter truthy (replicate n None) = []"
  by (induction n) (auto simp: truthy_def)

lemma filter_truthy_saved:
  "length rule \<le> 6 \<Longrightarrow> [] \<notin> set rule \<Longrightarrow>
   filter truthy (v_fields (savePolicyLine pt rule)) = map Some rule"
  by (simp add: v_fields_take filter_truthy_Some filter_truthy_replicate_None)

lemma loadPolicyLine_result_id:
  "loadPolicyLine_result (r\<lparr>id_col := x\<rparr>) = loadPolicyLine_result r"
  by (simp add: loadPolicyLine_result_def v_fields_id)

lemma loadPolicyLine_result_saved:
  "length rule \<le> 6 \<Longrightarrow> [] \<notin> set rule \<Longrightarrow>
   loadPolicyLine_result (savePolicyLine pt rule) = pt @ '', '' @ join '', '' (map Some rule)"
  by (simp add: loadPolicyLine_result_def filter_truthy_saved savePolicyLine_ptype to_string_def)

lemma loadPolicy_lines:
  "loadPolicy helper db m =
     foldl (\<lambda>m' l. helper l m') m (map loadPolicyLine_result (rows db))"
  by (simp add: loadPolicy_def loadPolicyLine_def findAll_def foldl_map)

text \<open>
  Claim C2, as amended. For a tuple of at most six elements, none of them the empty
  string, the row that \<open>addPolicy\<close> stores keeps the \<open>ptype\<close>, the fields that
  \<open>loadPolicyLine\<close> keeps of it are exactly the tuple, and \<open>loadPolicy\<close> hands the loader,
  after the lines of the rows stored before, the line made of the \<open>ptype\<close>, the separator
  and the elements joined by the separator.
\<close>

theorem addPolicy_loadPolicy_line:
  assumes "length rule \<le> 6" and "[] \<notin> set rule"
  shows "ptype (last (rows (fst (addPolicy sec pt rule db)))) = Some pt \<and>
    filter truthy (v_fields (last (rows (fst (addPolicy sec pt rule db))))) = map Some rule \<and>
    loadPolicy helper (fst (addPolicy sec pt rule db)) m =
      helper (pt @ '', '' @ join '', '' (map Some rule)) (loadPolicy helper db m)"
  using assms
  by (simp add: addPolicy_def rows_save loadPolicy_lines loadPolicyLine_result_id
      loadPolicyLine_result_saved filter_truthy_saved v_fields_id savePolicyLine_ptype)

text \<open>
  The example of the claim: with a loader that records the lines it is given, adding
  \<open>alice, data1, read\<close> under \<open>p\<close> to the empty table and loading gives the single line
  \<open>p, alice, data1, read\<close>.
\<close>

theorem addPolicy_loadPolicy_line_witness:
  "loadPolicy (\<lambda>line m. m @ [line])
     (fst (addPolicy ''p'' ''p'' [''alice'', ''data1'', ''read''] empty_table)) [] =
   [''p, alice, data1, read'']"
proof -
  have h1: "length [''alice'', ''data1'', ''read''] \<le> 6"
    by simp
  have h2: "[] \<notin> set [''alice'', ''data1'', ''read'']"
    by simp
  from addPolicy_loadPolicy_line [OF h1 h2, of "''p''" "''p''" empty_table
      "\<lambda>line m. m @ [line]" "[]"]
  show ?thesis
    by (simp add: loadPolicy_lines empty_table_def)
qed

text \<open>
  Claim C2 as stated fails for a tuple with an empty element: of \<open>alice\<close>, the empty
  string and \<open>read\<close>, saved under \<open>p\<close>, only \<open>alice\<close> and \<open>read\<close> are kept, and the line is
  \<open>p, alice, read\<close>, which is also the line of the two-element tuple.
\<close>

theorem addPolicy_loadPolicy_empty_string_counterexample:
  "length [''alice'', '''', ''read''] \<le> 6 \<and>
   filter truthy (v_fields (last (rows (fst
      (addPolicy ''p'' ''p'' [''alice'', '''', ''read''] empty_table))))) =
     [Some ''alice'', Some ''read''] \<and>
   filter truthy (v_fields (last (rows (fst
      (addPolicy ''p'' ''p'' [''alice'', '''', ''read''] empty_table))))) \<noteq>
     map Some [''alice'', '''', ''read''] \<and>
   loadPolicy (\<lambda>line m. m @ [line])
     (fst (addPolicy ''p'' ''p'' [''alice'', '''', ''read''] empty_table)) [] =
     [''p, alice, read''] \<and>
   loadPolicy (\<lambda>line m. m @ [line])
     (fst (addPolicy ''p'' ''p'' [''alice'', ''read''] empty_table)) [] =
     [''p, alice, read'']"
  by (simp add: addPolicy_def rows_save loadPolicy_lines empty_table_def loadPolicyLine_result_def
      v_fields_def savePolicyLine_fields truthy_def to_string_def)

subsection \<open>A whole model\<close>

lemma lines_save_pairs:
  "map loadPolicyLine_result (rows (save_pairs ps db)) =
     map loadPolicyLine_result (rows db) @
     map (\<lambda>(pt, rule). loadPolicyLine_result (savePolicyLine pt rule)) ps"
proof -
  have "map loadPolicyLine_result (rows (save_pairs ps db)) =
      map loadPolicyLine_result (map (\<lambda>r. r\<lparr>id_col := None\<rparr>) (rows (save_pairs ps db)))"
    by (simp add: loadPolicyLine_result_id)
  also have "\<dots> = map loadPolicyLine_result (rows db) @
     map (\<lambda>(pt, rule). loadPolicyLine_result (savePolicyLine pt rule)) ps"
    by (simp add: rows_save_pairs loadPolicyLine_result_id split_def)
  finally show ?thesis .
qed

lemma kept_save_pairs:
  "map (\<lambda>r. (ptype r, filter truthy (v_fields r))) (rows (save_pairs ps db)) =
     map (\<lambda>r. (ptype r, filter truthy (v_fields r))) (rows db) @
     map (\<lambda>(pt, rule). (Some pt, filter truthy (v_fields (savePolicyLine pt rule)))) ps"
proof -
  have "map (\<lambda>r. (ptype r, filter truthy (v_fields r))) (rows (save_pairs ps db)) =
      map (\<lambda>r. (ptype r, filter truthy (v_fields r)))
        (map (\<lambda>r. r\<lparr>id_col := None\<rparr>) (rows (save_pairs ps db)))"
    by (simp add: v_fields_id)
  also have "\<dots> = map (\<lambda>r. (ptype r, filter truthy (v_fields r))) (rows db) @
     map (\<lambda>(pt, rule). (Some pt, filter truthy (v_fields (savePolicyLine pt rule)))) ps"
    by (simp add: rows_save_pairs v_fields_id split_def savePolicyLine_ptype)
  finally show ?thesis .
qed

lemma model_pairs_sections:
  "map_of (model m) ''p'' = Some ps \<Longrightarrow> map_of (model m) ''g'' = Some gs \<Longrightarrow>
   model_pairs m = section_pairs ps @ section_pairs gs"
  by (simp add: model_pairs_def)

text \<open>
  Claim C1, as amended. Let the model have a \<open>p\<close> and a \<open>g\<close> section, and let every
  tuple of these sections have at most six elements, none of them the empty string.
  Then \<open>savePolicy\<close> returns true, and \<open>loadPolicy\<close>, whatever the engine's loader and the
  model it loads into, hands the loader exactly one line for each (ptype, tuple) pair
  of the model, in the order of saving: the ptype, the separator and the elements joined
  by the separator. The pairs of ptype and kept fields of the stored rows are the pairs
  of the model; as sets, these pairs and these lines are the same in whatever order
  storage returns the rows.
\<close>

theorem savePolicy_loadPolicy_roundtrip:
  assumes "map_of (model m) ''p'' = Some ps" and "map_of (model m) ''g'' = Some gs"
    and "list_all (\<lambda>(pt, rule). length rule \<le> 6 \<and> [] \<notin> set rule) (model_pairs m)"
  shows "snd (savePolicy m db) = Inr True \<and>
    loadPolicy helper (fst (savePolicy m db)) m' =
      foldl (\<lambda>a (pt, rule). helper (pt @ '', '' @ join '', '' (map Some rule)) a) m'
        (model_pairs m) \<and>
    map (\<lambda>r. (ptype r, filter truthy (v_fields r))) (rows (fst (savePolicy m db))) =
      map (\<lambda>(pt, rule). (Some pt, map Some rule)) (model_pairs m) \<and>
    (\<forall>rs. set rs = set (rows (fst (savePolicy m db))) \<longrightarrow>
       (\<lambda>r. (ptype r, filter truthy (v_fields r))) ` set rs =
         (\<lambda>(pt, rule). (Some pt, map Some rule)) ` set (model_pairs m) \<and>
       loadPolicyLine_result ` set rs =
         (\<lambda>(pt, rule). pt @ '', '' @ join '', '' (map Some rule)) ` set (model_pairs m))"
proof -
  have s: "savePolicy m db = (save_pairs (model_pairs m) (db\<lparr>rows := []\<rparr>), Inr True)"
    using savePolicy_complete [OF assms(1,2)] model_pairs_sections [OF assms(1,2)] by simp
  have ok: "length rule \<le> 6 \<and> [] \<notin> set rule" if "(pt, rule) \<in> set (model_pairs m)" for pt rule
    using assms(3) that by (auto simp: list_all_iff)
  have lines: "map loadPolicyLine_result (rows (fst (savePolicy m db))) =
      map (\<lambda>(pt, rule). pt @ '', '' @ join '', '' (map Some rule)) (model_pairs m)"
  proof -
    have "map loadPolicyLine_result (rows (fst (savePolicy m db))) =
        map (\<lambda>(pt, rule). loadPolicyLine_result (savePolicyLine pt rule)) (model_pairs m)"
      by (simp add: s lines_save_pairs)
    also have "\<dots> = map (\<lambda>(pt, rule). pt @ '', '' @ join '', '' (map Some rule)) (model_pairs m)"
      by (rule map_cong [OF refl]) (auto simp: loadPolicyLine_result_saved dest: ok)
    finally show ?thesis .
  qed
  have kept: "map (\<lambda>r. (ptype r, filter truthy (v_fields r))) (rows (fst (savePolicy m db))) =
      map (\<lambda>(pt, rule). (Some pt, map Some rule)) (model_pairs m)"
  proof -
    have "map (\<lambda>r. (ptype r, filter truthy (v_fields r))) (rows (fst (savePolicy m db))) =
        map (\<lambda>(pt, rule). (Some pt, filter truthy (v_fields (savePolicyLine pt rule))))
          (model_pairs m)"
      by (simp add: s kept_save_pairs)
    also have "\<dots> = map (\<lambda>(pt, rule). (Some pt, map Some rule)) (model_pairs m)"
      by (rule map_cong [OF refl]) (auto simp: filter_truthy_saved dest: ok)
    finally show ?thesis .
  qed
  have load: "loadPolicy helper (fst (savePolicy m db)) m' =
      foldl (\<lambda>a (pt, rule). helper (pt @ '', '' @ join '', '' (map Some rule)) a) m'
        (model_pairs m)"
    unfolding loadPolicy_lines lines by (simp add: foldl_map split_def)
  have sets: "(\<lambda>r. (ptype r, filter truthy (v_fields r))) ` set rs =
         (\<lambda>(pt, rule). (Some pt, map Some rule)) ` set (model_pairs m) \<and>
       loadPolicyLine_result ` set rs =
         (\<lambda>(pt, rule). pt @ '', '' @ join '', '' (map Some rule)) ` set (model_pairs m)"
    if "set rs = set (rows (fst (savePolicy m db)))" for rs
  proof -
    have "(\<lambda>r. (ptype r, filter truthy (v_fields r))) ` set rs =
        set (map (\<lambda>r. (ptype r, filter truthy (v_fields r))) (rows (fst (savePolicy m db))))"
      by (simp add: that)
    moreover have "loadPolicyLine_result ` set rs =
        set (map loadPolicyLine_result (rows (fst (savePolicy m db))))"
      by (simp add: that)
    ultimately show ?thesis
      unfolding kept lines by simp
  qed
  have "snd (savePolicy m db) = Inr True"
    by (simp add: s)
  with load kept sets show ?thesis
    by blast
qed

text \<open>
  The amended claim on a model with two \<open>p\<close> rules and one \<open>g\<close> rule, saved over the
  empty table and loaded with a loader that records the lines it is given.
\<close>

theorem savePolicy_loadPolicy_roundtrip_witness:
  "loadPolicy (\<lambda>line a. a @ [line])
     (fst (savePolicy
        \<lparr>model = [(''p'', [(''p'', \<lparr>policy = [[''alice'', ''data1'', ''read''],
                                              [''bob'', ''data2'', ''write'']]\<rparr>)]),
                  (''g'', [(''g'', \<lparr>policy = [[''alice'', ''admin'']]\<rparr>)])]\<rparr>
        empty_table)) [] =
     [''p, alice, data1, read'', ''p, bob, data2, write'', ''g, alice, admin''] \<and>
   map (\<lambda>r. (ptype r, filter truthy (v_fields r)))
     (rows (fst (savePolicy
        \<lparr>model = [(''p'', [(''p'', \<lparr>policy = [[''alice'', ''data1'', ''read''],
                                              [''bob'', ''data2'', ''write'']]\<rparr>)]),
                  (''g'', [(''g'', \<lparr>policy = [[''alice'', ''admin'']]\<rparr>)])]\<rparr>
        empty_table))) =
     [(Some ''p'', [Some ''alice'', Some ''data1'', Some ''read'']),
      (Some ''p'', [Some ''bob'', Some ''data2'', Some ''write'']),
      (Some ''g'', [Some ''alice'', Some ''admin''])]"
proof -
  let ?m = "\<lparr>model = [(''p'', [(''p'', \<lparr>policy = [[''alice'', ''data1'', ''read''],
                                              [''bob'', ''data2'', ''write'']]\<rparr>)]),
                  (''g'', [(''g'', \<lparr>policy = [[''alice'', ''admin'']]\<rparr>)])]\<rparr>"
  have h1: "map_of (model ?m) ''p'' =
      Some [(''p'', \<lparr>policy = [[''alice'', ''data1'', ''read''], [''bob'', ''data2'', ''write'']]\<rparr>)]"
    by simp
  have h2: "map_of (model ?m) ''g'' = Some [(''g'', \<lparr>policy = [[''alice'', ''admin'']]\<rparr>)]"
    by simp
  have h3: "list_all (\<lambda>(pt, rule). length rule \<le> 6 \<and> [] \<notin> set rule) (model_pairs ?m)"
    by (simp add: model_pairs_def section_pairs_def)
  have mp: "model_pairs ?m =
      [(''p'', [''alice'', ''data1'', ''read'']), (''p'', [''bob'', ''data2'', ''write'']),
       (''g'', [''alice'', ''admin''])]"
    by (simp add: model_pairs_def section_pairs_def)
  note t = savePolicy_loadPolicy_roundtrip [OF h1 h2 h3, of empty_table "\<lambda>line a. a @ [line]" "[]"]
  from t have "loadPolicy (\<lambda>line a. a @ [line]) (fst (savePolicy ?m empty_table)) [] =
      foldl (\<lambda>a (pt, rule). (\<lambda>line a. a @ [line]) (pt @ '', '' @ join '', '' (map Some rule)) a) []
        (model_pairs ?m)"
    by (rule conjunct1 [OF conjunct2])
  then have a: "loadPolicy (\<lambda>line a. a @ [line]) (fst (savePolicy ?m empty_table)) [] =
      [''p, alice, data1, read'', ''p, bob, data2, write'', ''g, alice, admin'']"
    unfolding mp by simp
  from t have "map (\<lambda>r. (ptype r, filter truthy (v_fields r)))
      (rows (fst (savePolicy ?m empty_table))) =
      map (\<lambda>(pt, rule). (Some pt, map Some rule)) (model_pairs ?m)"
    by (rule conjunct1 [OF conjunct2 [OF conjunct2]])
  then have b: "map (\<lambda>r. (ptype r, filter truthy (v_fields r)))
      (rows (fst (savePolicy ?m empty_table))) =
     [(Some ''p'', [Some ''alice'', Some ''data1'', Some ''read'']),
      (Some ''p'', [Some ''bob'', Some ''data2'', Some ''write'']),
      (Some ''g'', [Some ''alice'', Some ''admin''])]"
    unfolding mp by simp
  from a b show ?thesis
    by (rule conjI)
qed

text \<open>
  Claim C1 as stated fails. The model whose only rule is \<open>alice\<close>, the empty string and
  \<open>read\<close> under \<open>p\<close> is saved with result true; the row then keeps only \<open>alice\<close> and \<open>read\<close>,
  and the loader is handed the single line \<open>p, alice, read\<close>. That is also the single
  line handed over for the model whose only rule is \<open>alice\<close> and \<open>read\<close>, a model with
  another set of pairs: no loader can give back the pairs of both.
\<close>

theorem savePolicy_loadPolicy_empty_string_counterexample:
  "snd (savePolicy
      \<lparr>model = [(''p'', [(''p'', \<lparr>policy = [[''alice'', '''', ''read'']]\<rparr>)]), (''g'', [])]\<rparr>
      empty_table) = Inr True \<and>
   map (\<lambda>r. (ptype r, filter truthy (v_fields r))) (rows (fst (savePolicy
      \<lparr>model = [(''p'', [(''p'', \<lparr>policy = [[''alice'', '''', ''read'']]\<rparr>)]), (''g'', [])]\<rparr>
      empty_table))) = [(Some ''p'', [Some ''alice'', Some ''read''])] \<and>
   loadPolicy (\<lambda>line a. a @ [line]) (fst (savePolicy
      \<lparr>model = [(''p'', [(''p'', \<lparr>policy = [[''alice'', '''', ''read'']]\<rparr>)]), (''g'', [])]\<rparr>
      empty_table)) [] = [''p, alice, read''] \<and>
   loadPolicy (\<lambda>line a. a @ [line]) (fst (savePolicy
      \<lparr>model = [(''p'', [(''p'', \<lparr>policy = [[''alice'', ''read'']]\<rparr>)]), (''g'', [])]\<rparr>
      empty_table)) [] = [''p, alice, read''] \<and>
   set (model_pairs
      \<lparr>model = [(''p'', [(''p'', \<lparr>policy = [[''alice'', '''', ''read'']]\<rparr>)]), (''g'', [])]\<rparr>) =
     {(''p'', [''alice'', '''', ''read''])} \<and>
   set (model_pairs
      \<lparr>model = [(''p'', [(''p'', \<lparr>policy = [[''alice'', '''', ''read'']]\<rparr>)]), (''g'', [])]\<rparr>) \<noteq>
   set (model_pairs
      \<lparr>model = [(''p'', [(''p'', \<lparr>policy = [[''alice'', ''read'']]\<rparr>)]), (''g'', [])]\<rparr>)"
  by (simp add: savePolicy_def dropTable_def createTable_def destroy_truncate_def sync_def
      save_astMap_def save_rules_def save_def empty_table_def loadPolicy_lines
      loadPolicyLine_result_def v_fields_def savePolicyLine_fields truthy_def to_string_def
      model_pairs_def section_pairs_def)

end
